theory Spec2Isabelle
  imports Complex_Main
begin

section \<open>The scalar transport step \<^verbatim>\<open>swirl_lm/equations/scalars.py\<close>\<close>

text \<open>
  The class \<^verbatim>\<open>Scalars\<close> advances the transported scalars of a flow solver by a
  predictor/corrector scheme. This theory embeds its methods as HOL functions.

  \<^item> A \<^verbatim>\<open>FlowFieldVal\<close> (the cell values of one quantity on the local partition,
    halo included) is a function from cells \<open>'c\<close> to values. All fields of one
    computation have the same shape; here that is the type \<open>'c\<close>. Cell values are
    real numbers: the theorems are about the arithmetic the code writes down, not about
    the rounding of the floating-point unit that carries it out.
  \<^item> A \<^verbatim>\<open>FlowFieldMap\<close> (a Python dict from names to fields) is a map.
  \<^item> A Python exception is a value of type \<open>error\<close>. A method returns a pair: the
    result (an error or a value) and the list of calls it made to the collective
    collaborators (ghost-cell exchange, immersed boundary), in order.
  \<^item> The collaborators that the module imports (ghost-cell exchange, closures of the
    scalars, turbulence model, immersed boundary, debug hook, registry helpers) are
    fields of the object: functions the theorems quantify over. The arguments
    \<^verbatim>\<open>replica_id\<close>, \<^verbatim>\<open>replicas\<close> and \<^verbatim>\<open>kernel_op\<close>, which the methods only
    hand on to the collaborators, are part of these functions.
\<close>

subsection \<open>Fields, maps and errors\<close>

type_synonym 'c FlowFieldVal = "'c \<Rightarrow> real"

type_synonym 'c FlowFieldMap = "string \<Rightarrow> 'c FlowFieldVal option"

text \<open>
  The helper states handed to the closures hold fields and, under the key
  \<^verbatim>\<open>'diffusivity'\<close>, either one field or a list of fields (one per axis).
\<close>

datatype 'c helper_val = Single "'c FlowFieldVal" | PerAxis "'c FlowFieldVal list"

type_synonym 'c HelperMap = "string \<Rightarrow> 'c helper_val option"

text \<open>
  Modelled from the spec: the enumerations \<^verbatim>\<open>numerics_pb2.TimeIntegrationScheme\<close>
  and \<^verbatim>\<open>thermodynamics_pb2.Thermodynamics\<close> (generated modules, not among the
  sources). The module compares a value with one member of each; the spec lists the
  solver mode as anelastic or other, and the Crank--Nicolson explicit iteration as the
  one accepted scheme. The other schemes are told apart by a number.
\<close>

datatype time_scheme = TIME_SCHEME_CN_EXPLICIT_ITERATION | TIME_SCHEME_OTHER nat

datatype solver_mode = ANELASTIC | LOW_MACH

text \<open>
  The exceptions: a missing dictionary key, the unsupported time-integration scheme, and
  a value of the wrong structure handed to \<^verbatim>\<open>tf.nest.map_structure\<close>.
\<close>

datatype error = KeyError string | ValueError time_scheme | TypeError

text \<open>The calls to collective collaborators that a method makes, as a trace.\<close>

datatype ('c, 'b) event =
    HaloExchange "'c FlowFieldVal" 'b
  | IbUpdateForcing string
  | IbUpdateStates "'c FlowFieldMap"

type_synonym ('a, 'c, 'b) run = "(error + 'a) \<times> ('c, 'b) event list"

definition ret :: "'a \<Rightarrow> ('a, 'c, 'b) run" where
  "ret x = (Inr x, [])"

definition raise :: "error \<Rightarrow> ('a, 'c, 'b) run" where
  "raise e = (Inl e, [])"

definition emit :: "('c, 'b) event \<Rightarrow> (unit, 'c, 'b) run" where
  "emit ev = (Inr (), [ev])"

definition rbind :: "('a, 'c, 'b) run \<Rightarrow> ('a \<Rightarrow> ('d, 'c, 'b) run) \<Rightarrow> ('d, 'c, 'b) run" where
  "rbind m f =
     (case m of
        (Inl e, t) \<Rightarrow> (Inl e, t)
      | (Inr x, t) \<Rightarrow> (case f x of (r, t') \<Rightarrow> (r, t @ t')))"

text \<open>\<^verbatim>\<open>d[k]\<close>: a missing key raises \<^verbatim>\<open>KeyError\<close>.\<close>

definition getitem :: "(string \<Rightarrow> 'v option) \<Rightarrow> string \<Rightarrow> ('v, 'c, 'b) run" where
  "getitem d k = (case d k of None \<Rightarrow> raise (KeyError k) | Some v \<Rightarrow> ret v)"

text \<open>A \<^verbatim>\<open>for\<close> loop over a list that updates a local variable.\<close>

primrec for_each ::
  "('x \<Rightarrow> 's \<Rightarrow> ('s, 'c, 'b) run) \<Rightarrow> 'x list \<Rightarrow> 's \<Rightarrow> ('s, 'c, 'b) run" where
  "for_each body [] = (\<lambda>s. ret s)"
| "for_each body (x # xs) = (\<lambda>s. rbind (body x s) (for_each body xs))"

text \<open>
  The calls of a trace to the state update of the immersed boundary, and its calls to
  the ghost-cell exchange, with their arguments.
\<close>

fun ib_state_calls :: "('c, 'b) event list \<Rightarrow> 'c FlowFieldMap list" where
  "ib_state_calls [] = []"
| "ib_state_calls (IbUpdateStates fields # t) = fields # ib_state_calls t"
| "ib_state_calls (HaloExchange f bc_f # t) = ib_state_calls t"
| "ib_state_calls (IbUpdateForcing n # t) = ib_state_calls t"

fun halo_exchange_calls :: "('c, 'b) event list \<Rightarrow> ('c FlowFieldVal \<times> 'b) list" where
  "halo_exchange_calls [] = []"
| "halo_exchange_calls (HaloExchange f bc_f # t) = (f, bc_f) # halo_exchange_calls t"
| "halo_exchange_calls (IbUpdateStates fields # t) = halo_exchange_calls t"
| "halo_exchange_calls (IbUpdateForcing n # t) = halo_exchange_calls t"

subsection \<open>Keys and pointwise operations\<close>

text \<open>
  The keys of \<^verbatim>\<open>swirl_lm.equations.common\<close>, as the docstring of
  \<^verbatim>\<open>_scalar_update\<close> spells them.
\<close>

definition KEY_RHO :: string where "KEY_RHO = ''rho''"
definition KEY_U :: string where "KEY_U = ''u''"
definition KEY_V :: string where "KEY_V = ''v''"
definition KEY_W :: string where "KEY_W = ''w''"

text \<open>\<^verbatim>\<open>'rho_{}'.format(sc_name)\<close>\<close>

definition rho_name :: "string \<Rightarrow> string" where
  "rho_name sc_name = ''rho_'' @ sc_name"

text \<open>
  Modelled from the spec: \<^verbatim>\<open>common_ops.average\<close> (not among the sources), given
  there as the arithmetic average of its two arguments, cell by cell.
\<close>

definition average :: "'c FlowFieldVal \<Rightarrow> 'c FlowFieldVal \<Rightarrow> 'c FlowFieldVal" where
  "average a b = (\<lambda>c. (a c + b c) / 2)"

definition zeros_like :: "'c FlowFieldVal \<Rightarrow> 'c FlowFieldVal" where
  "zeros_like f = (\<lambda>c. 0)"

definition ones_like :: "'c FlowFieldVal \<Rightarrow> 'c FlowFieldVal" where
  "ones_like f = (\<lambda>c. 1)"

subsection \<open>Configuration and collaborators\<close>

text \<open>
  The fields of \<^verbatim>\<open>SwirlLMParameters\<close> that the module reads. \<open>scalars\<close> lists
  \<^verbatim>\<open>(sc.name, sc.solve_scalar)\<close> for each configured scalar.
\<close>

record 'b SwirlLMParameters =
  transport_scalars_names :: "string list"
  params_bc :: "string \<Rightarrow> 'b option"
  scalars :: "(string \<times> bool) list"
  solver_mode :: solver_mode
  scalar_time_integration_scheme :: "string \<Rightarrow> time_scheme"
  dt :: real
  diffusivity :: "string \<Rightarrow> real"
  use_sgs :: bool
  halo_width :: nat

text \<open>
  The closure of one scalar (\<^verbatim>\<open>PotentialTemperature\<close>, \<^verbatim>\<open>Humidity\<close>,
  \<^verbatim>\<open>TotalEnergy\<close> or \<^verbatim>\<open>ScalarGeneric\<close>): convection and diffusion return one
  field per axis, the source one field.
\<close>

record 'c scalar_closure =
  convection_fn :: "'c FlowFieldVal \<Rightarrow> 'c FlowFieldMap \<Rightarrow> 'c HelperMap
                     \<Rightarrow> 'c FlowFieldVal \<times> 'c FlowFieldVal \<times> 'c FlowFieldVal"
  diffusion_fn :: "'c FlowFieldVal \<Rightarrow> 'c FlowFieldMap \<Rightarrow> 'c HelperMap
                     \<Rightarrow> 'c FlowFieldVal \<times> 'c FlowFieldVal \<times> 'c FlowFieldVal"
  source_fn :: "'c FlowFieldVal \<Rightarrow> 'c FlowFieldMap \<Rightarrow> 'c HelperMap \<Rightarrow> 'c FlowFieldVal"

text \<open>The immersed-boundary method.\<close>

record ('c, 'b) immersed_boundary =
  ib_rhs_name :: "string \<Rightarrow> string"
  update_forcing :: "'c FlowFieldMap \<Rightarrow> 'c HelperMap \<Rightarrow> 'c FlowFieldMap"
  update_states :: "'c FlowFieldMap \<Rightarrow> 'c FlowFieldMap \<Rightarrow> (string \<Rightarrow> 'b option)
                     \<Rightarrow> 'c FlowFieldMap"

text \<open>
  The object. \<open>self_bc\<close> and \<open>self_source\<close> are the registries \<^verbatim>\<open>self._bc\<close> and
  \<^verbatim>\<open>self._source\<close>; a source registered as \<^verbatim>\<open>None\<close> is \<open>Some None\<close>.
  \<open>sgs_model\<close> is present exactly when \<^verbatim>\<open>self._use_sgs\<close> holds; its value is the
  method \<^verbatim>\<open>turbulent_diffusivity\<close>. \<open>dbg\<close> is the method
  \<^verbatim>\<open>update_scalar_terms\<close> of the debug hook.
\<close>

record ('c, 'b) Scalars =
  params :: "'b SwirlLMParameters"
  self_bc :: "string \<Rightarrow> 'b option"
  self_source :: "string \<Rightarrow> 'c FlowFieldVal option option"
  scalar_model :: "string \<Rightarrow> 'c scalar_closure option"
  ib :: "('c, 'b) immersed_boundary option"
  dbg :: "(string \<Rightarrow> 'c FlowFieldMap \<Rightarrow> 'c FlowFieldVal list option \<Rightarrow> 'c FlowFieldMap) option"
  sgs_model :: "('c FlowFieldVal list
                   \<Rightarrow> 'c FlowFieldVal \<times> 'c FlowFieldVal \<times> 'c FlowFieldVal
                   \<Rightarrow> 'c FlowFieldMap \<Rightarrow> 'c FlowFieldVal list) option"
  inplace_halo_exchange :: "'c FlowFieldVal \<Rightarrow> 'b \<Rightarrow> 'c FlowFieldVal"
  bc_manager :: "'c FlowFieldMap \<Rightarrow> nat \<Rightarrow> (string \<Rightarrow> 'b option) \<Rightarrow> (string \<Rightarrow> 'b option)"
  src_manager :: "'c FlowFieldMap \<Rightarrow> 'c FlowFieldMap"

subsection \<open>Construction\<close>

text \<open>
  \<^verbatim>\<open>Scalars.__init__\<close>. The closure of a scalar is chosen by its name;
  \<open>pt_names\<close> and \<open>hum_names\<close> are the name tables of the potential-temperature
  and humidity modules, \<open>mk\<close> the four constructors.
\<close>

datatype closure_variant = PotentialTemperature | Humidity | TotalEnergy | ScalarGeneric

definition resolve_variant :: "string list \<Rightarrow> string list \<Rightarrow> string \<Rightarrow> closure_variant" where
  "resolve_variant pt_names hum_names scalar_name =
     (if scalar_name \<in> set pt_names then PotentialTemperature
      else if scalar_name \<in> set hum_names then Humidity
      else if scalar_name = ''e_t'' then TotalEnergy
      else ScalarGeneric)"

definition init_bc :: "'b SwirlLMParameters \<Rightarrow> (string \<Rightarrow> 'b option)" where
  "init_bc p = (\<lambda>varname. if varname \<in> set (transport_scalars_names p)
                           then params_bc p varname else None)"

definition init_source :: "'b SwirlLMParameters \<Rightarrow> (string \<Rightarrow> 'c FlowFieldVal option option)" where
  "init_source p = (\<lambda>n. if (n, True) \<in> set (scalars p) then Some None else None)"

definition init_scalar_model ::
  "string list \<Rightarrow> string list \<Rightarrow> (closure_variant \<Rightarrow> string \<Rightarrow> 'c scalar_closure)
     \<Rightarrow> 'b SwirlLMParameters \<Rightarrow> (string \<Rightarrow> 'c scalar_closure option)" where
  "init_scalar_model pt_names hum_names mk p =
     (\<lambda>n. if n \<in> set (transport_scalars_names p)
          then Some (mk (resolve_variant pt_names hum_names n) n) else None)"

text \<open>
  The constructor: \<open>ib_arg\<close> is the argument \<^verbatim>\<open>ib\<close>, \<open>ib_factory\<close> the result of
  \<^verbatim>\<open>immersed_boundary_method_factory(params)\<close>, \<open>sgs\<close> the turbulence model that
  is built when \<^verbatim>\<open>params.use_sgs\<close> holds.
\<close>

definition init ::
  "'b SwirlLMParameters \<Rightarrow> ('c, 'b) immersed_boundary option \<Rightarrow> ('c, 'b) immersed_boundary option
     \<Rightarrow> (string \<Rightarrow> 'c FlowFieldMap \<Rightarrow> 'c FlowFieldVal list option \<Rightarrow> 'c FlowFieldMap) option
     \<Rightarrow> ('c FlowFieldVal list \<Rightarrow> 'c FlowFieldVal \<times> 'c FlowFieldVal \<times> 'c FlowFieldVal
           \<Rightarrow> 'c FlowFieldMap \<Rightarrow> 'c FlowFieldVal list)
     \<Rightarrow> string list \<Rightarrow> string list \<Rightarrow> (closure_variant \<Rightarrow> string \<Rightarrow> 'c scalar_closure)
     \<Rightarrow> ('c FlowFieldVal \<Rightarrow> 'b \<Rightarrow> 'c FlowFieldVal)
     \<Rightarrow> ('c FlowFieldMap \<Rightarrow> nat \<Rightarrow> (string \<Rightarrow> 'b option) \<Rightarrow> (string \<Rightarrow> 'b option))
     \<Rightarrow> ('c FlowFieldMap \<Rightarrow> 'c FlowFieldMap)
     \<Rightarrow> ('c, 'b) Scalars" where
  "init p ib_arg ib_factory dbg_arg sgs pt_names hum_names mk halo bcm srcm =
     \<lparr> params = p,
       self_bc = init_bc p,
       self_source = init_source p,
       scalar_model = init_scalar_model pt_names hum_names mk p,
       ib = (case ib_arg of Some i \<Rightarrow> Some i | None \<Rightarrow> ib_factory),
       dbg = dbg_arg,
       sgs_model = (if use_sgs p then Some sgs else None),
       inplace_halo_exchange = halo,
       bc_manager = bcm,
       src_manager = srcm \<rparr>"

subsection \<open>Halo exchange\<close>

text \<open>\<^verbatim>\<open>_exchange_halos\<close>: one call of the ghost-cell exchange primitive.\<close>

definition exchange_halos ::
  "('c, 'b) Scalars \<Rightarrow> 'c FlowFieldVal \<Rightarrow> 'b \<Rightarrow> ('c FlowFieldVal, 'c, 'b) run" where
  "exchange_halos self f bc_f =
     rbind (emit (HaloExchange f bc_f)) (\<lambda>_. ret (inplace_halo_exchange self f bc_f))"

text \<open>\<^verbatim>\<open>exchange_scalar_halos\<close>: \<^verbatim>\<open>bc[name]\<close> is looked up in the registry.\<close>

definition exchange_scalar_halos ::
  "('c, 'b) Scalars \<Rightarrow> 'c FlowFieldVal \<Rightarrow> string \<Rightarrow> ('c FlowFieldVal, 'c, 'b) run" where
  "exchange_scalar_halos self f name =
     rbind (getitem (self_bc self) name) (\<lambda>bc_f. exchange_halos self f bc_f)"

subsection \<open>Right-hand side\<close>

definition scalar_transport_equation ::
  "real \<Rightarrow> real \<Rightarrow> real \<Rightarrow> real \<Rightarrow> real \<Rightarrow> real \<Rightarrow> real \<Rightarrow> real" where
  "scalar_transport_equation conv_x conv_y conv_z diff_x diff_y diff_z src =
     - (conv_x + conv_y + conv_z) + (diff_x + diff_y + diff_z) + src"

text \<open>
  The helper states handed to \<^verbatim>\<open>update_forcing\<close>: the tentative right-hand side
  and the two masks, each if the helper states of the caller have it.
\<close>

definition ib_helper_states ::
  "string \<Rightarrow> 'c FlowFieldVal \<Rightarrow> 'c HelperMap \<Rightarrow> 'c HelperMap" where
  "ib_helper_states rhs_name rhs additional_states =
     fold (\<lambda>helper_var_name helper_states.
             case additional_states helper_var_name of
               None \<Rightarrow> helper_states
             | Some v \<Rightarrow> helper_states(helper_var_name \<mapsto> v))
          [''ib_interior_mask'', ''ib_boundary''] [rhs_name \<mapsto> Single rhs]"

text \<open>
  The local variable \<^verbatim>\<open>source\<close> of \<^verbatim>\<open>_scalar_update\<close>: the registered
  source, or zeros shaped like the density when \<^verbatim>\<open>None\<close> is registered.
\<close>

definition registered_source ::
  "('c, 'b) Scalars \<Rightarrow> string \<Rightarrow> 'c FlowFieldMap \<Rightarrow> ('c FlowFieldVal, 'c, 'b) run" where
  "registered_source self scalar_name states =
     rbind (getitem (self_source self) scalar_name) (\<lambda>registered.
       case registered of
         Some src \<Rightarrow> ret src
       | None \<Rightarrow> rbind (getitem states KEY_RHO) (\<lambda>rho. ret (zeros_like rho)))"

text \<open>
  The inner function \<^verbatim>\<open>scalar_function\<close>. In debug mode it returns the dictionary
  of the seven terms (\<open>Inl\<close>), otherwise the right-hand side (\<open>Inr\<close>).
\<close>

definition scalar_function ::
  "('c, 'b) Scalars \<Rightarrow> string \<Rightarrow> 'c FlowFieldMap \<Rightarrow> 'c HelperMap \<Rightarrow> bool \<Rightarrow> 'c FlowFieldVal
     \<Rightarrow> 'c FlowFieldVal \<Rightarrow> ('c FlowFieldMap + 'c FlowFieldVal, 'c, 'b) run" where
  "scalar_function self scalar_name states additional_states dbg_flag source phi =
     rbind (getitem (scalar_model self) scalar_name) (\<lambda>model.
       case convection_fn model phi states additional_states of (conv_x, conv_y, conv_z) \<Rightarrow>
       case diffusion_fn model phi states additional_states of (diff_x, diff_y, diff_z) \<Rightarrow>
       let source_additional = source_fn model phi states additional_states;
           source_all = (\<lambda>c. source c + source_additional c)
       in if dbg_flag then
            ret (Inl [''conv_x'' \<mapsto> conv_x, ''conv_y'' \<mapsto> conv_y, ''conv_z'' \<mapsto> conv_z,
                      ''diff_x'' \<mapsto> diff_x, ''diff_y'' \<mapsto> diff_y, ''diff_z'' \<mapsto> diff_z,
                      ''source'' \<mapsto> source_all])
          else
            let rhs = (\<lambda>c. scalar_transport_equation (conv_x c) (conv_y c) (conv_z c)
                                 (diff_x c) (diff_y c) (diff_z c) (source_all c))
            in case ib self of
                 None \<Rightarrow> ret (Inr rhs)
               | Some ibm \<Rightarrow>
                   let rho_sc_name = rho_name scalar_name;
                       rhs_name = ib_rhs_name ibm rho_sc_name;
                       helper_states = ib_helper_states rhs_name rhs additional_states
                   in rbind (getitem states KEY_RHO) (\<lambda>rho.
                      rbind (emit (IbUpdateForcing rho_sc_name)) (\<lambda>_.
                      rbind (getitem (update_forcing ibm [rho_sc_name \<mapsto> (\<lambda>c. rho c * phi c)]
                                        helper_states) rhs_name) (\<lambda>rhs_ib.
                        ret (Inr rhs_ib)))))"

text \<open>
  \<^verbatim>\<open>_scalar_update\<close>: the source is fixed when the method is called, the rest
  runs when the returned function is applied.
\<close>

definition scalar_update ::
  "('c, 'b) Scalars \<Rightarrow> string \<Rightarrow> 'c FlowFieldMap \<Rightarrow> 'c HelperMap \<Rightarrow> bool
     \<Rightarrow> ('c FlowFieldVal \<Rightarrow> ('c FlowFieldMap + 'c FlowFieldVal, 'c, 'b) run, 'c, 'b) run" where
  "scalar_update self scalar_name states additional_states dbg_flag =
     rbind (registered_source self scalar_name states) (\<lambda>source.
       ret (scalar_function self scalar_name states additional_states dbg_flag source))"

subsection \<open>The registries\<close>

text \<open>\<^verbatim>\<open>prestep\<close> replaces the boundary registry and updates the source registry.\<close>

definition prestep :: "('c, 'b) Scalars \<Rightarrow> 'c FlowFieldMap \<Rightarrow> ('c, 'b) Scalars" where
  "prestep self additional_states =
     self\<lparr> self_bc := bc_manager self additional_states (halo_width (params self)) (self_bc self),
           self_source := self_source self ++ (map_option Some \<circ> src_manager self additional_states) \<rparr>"

subsection \<open>Prediction step\<close>

text \<open>
  The mid-point states: a copy of \<^verbatim>\<open>states\<close> in which the density, the thermal
  density and every transported scalar are averaged with \<^verbatim>\<open>states_0\<close>.
\<close>

definition states_mid_of ::
  "('c, 'b) Scalars \<Rightarrow> 'c FlowFieldMap \<Rightarrow> 'c FlowFieldMap \<Rightarrow> ('c FlowFieldMap, 'c, 'b) run" where
  "states_mid_of self states states_0 =
     rbind (getitem states KEY_RHO) (\<lambda>rho.
     rbind (getitem states_0 KEY_RHO) (\<lambda>rho_0.
     rbind (getitem states ''rho_thermal'') (\<lambda>rho_thermal.
     rbind (getitem states_0 ''rho_thermal'') (\<lambda>rho_thermal_0.
       for_each
         (\<lambda>sc_name states_mid.
            rbind (getitem states sc_name) (\<lambda>sc.
            rbind (getitem states_0 sc_name) (\<lambda>sc_0.
              ret (states_mid(sc_name \<mapsto> average sc sc_0)))))
         (transport_scalars_names (params self))
         (states(KEY_RHO \<mapsto> average rho rho_0,
                 ''rho_thermal'' \<mapsto> average rho_thermal rho_thermal_0))))))"

text \<open>
  The diffusivity of one scalar: the molecular value on every cell, or, with the
  turbulence model, the molecular value plus the turbulent one on each axis. The second
  component is \<^verbatim>\<open>diff_t\<close>, which the debug hook receives.
\<close>

definition scalar_diffusivity ::
  "('c, 'b) Scalars \<Rightarrow> string \<Rightarrow> 'c FlowFieldVal \<Rightarrow> 'c FlowFieldMap \<Rightarrow> 'c FlowFieldMap
     \<Rightarrow> ('c helper_val \<times> 'c FlowFieldVal list option, 'c, 'b) run" where
  "scalar_diffusivity self sc_name sc_mid states additional_states =
     (case sgs_model self of
        Some turbulent_diffusivity \<Rightarrow>
          rbind (getitem states KEY_U) (\<lambda>u.
          rbind (getitem states KEY_V) (\<lambda>v.
          rbind (getitem states KEY_W) (\<lambda>w.
            let diff_t = turbulent_diffusivity [sc_mid] (u, v, w) additional_states
            in ret (PerAxis (map (\<lambda>diff_t_i c. diffusivity (params self) sc_name + diff_t_i c)
                               diff_t),
                    Some diff_t))))
      | None \<Rightarrow>
          ret (Single (\<lambda>c. diffusivity (params self) sc_name * ones_like sc_mid c), None))"

text \<open>
  The inner function \<^verbatim>\<open>time_advance_cn_explicit\<close>; \<^verbatim>\<open>states\<close> and
  \<^verbatim>\<open>states_0\<close> are those of the enclosing call.
\<close>

definition time_advance_cn_explicit ::
  "('c, 'b) Scalars \<Rightarrow> 'c FlowFieldMap \<Rightarrow> 'c FlowFieldMap \<Rightarrow> 'c FlowFieldVal \<Rightarrow> string
     \<Rightarrow> ('c FlowFieldMap, 'c, 'b) run" where
  "time_advance_cn_explicit self states states_0 rhs sc_name =
     (if solver_mode (params self) = ANELASTIC then
        rbind (getitem states KEY_RHO) (\<lambda>rho.
          let alpha = (\<lambda>c. inverse (rho c)) in
          rbind (getitem states_0 sc_name) (\<lambda>sc.
            let new_sc = (\<lambda>c. sc c + dt (params self) * rhs c * alpha c) in
            rbind (exchange_scalar_halos self new_sc sc_name) (\<lambda>exchanged.
              ret (Map.empty(sc_name \<mapsto> exchanged)))))
      else
        rbind (getitem states_0 (rho_name sc_name)) (\<lambda>rho_sc.
          let new_sc = (\<lambda>c. rho_sc c + dt (params self) * rhs c);
              updated_vars = Map.empty(rho_name sc_name \<mapsto> new_sc)
          in rbind (getitem updated_vars (rho_name sc_name)) (\<lambda>rho_sc_new.
             rbind (getitem states KEY_RHO) (\<lambda>rho.
             rbind (exchange_scalar_halos self (\<lambda>c. rho_sc_new c / rho c) sc_name) (\<lambda>exchanged.
               ret (updated_vars(sc_name \<mapsto> exchanged)))))))"

text \<open>The body of the loop over the transported scalars.\<close>

definition predict_scalar ::
  "('c, 'b) Scalars \<Rightarrow> 'c FlowFieldMap \<Rightarrow> 'c FlowFieldMap \<Rightarrow> 'c FlowFieldMap \<Rightarrow> 'c FlowFieldMap
     \<Rightarrow> string \<Rightarrow> 'c FlowFieldMap \<Rightarrow> ('c FlowFieldMap, 'c, 'b) run" where
  "predict_scalar self states states_0 additional_states states_mid sc_name updated_scalars =
     rbind (getitem states_mid sc_name) (\<lambda>sc_mid.
     rbind (scalar_diffusivity self sc_name sc_mid states additional_states) (\<lambda>(diffusivity, diff_t).
       let helper_states = [''diffusivity'' \<mapsto> diffusivity] ++ (map_option Single \<circ> additional_states)
       in
       rbind (scalar_update self sc_name states_mid helper_states False) (\<lambda>scalar_rhs_fn.
         let time_scheme = scalar_time_integration_scheme (params self) sc_name in
         rbind (if time_scheme = TIME_SCHEME_CN_EXPLICIT_ITERATION then
                  rbind (scalar_rhs_fn sc_mid) (\<lambda>r.
                    case r of
                      Inl terms \<Rightarrow> raise TypeError
                    | Inr rhs \<Rightarrow>
                        rbind (time_advance_cn_explicit self states states_0 rhs sc_name) (\<lambda>updated_vars.
                          ret (updated_scalars ++ updated_vars)))
                else raise (ValueError time_scheme)) (\<lambda>updated_scalars.
           case dbg self of
             None \<Rightarrow> ret updated_scalars
           | Some update_scalar_terms \<Rightarrow>
               rbind (scalar_update self sc_name states_mid helper_states True) (\<lambda>terms_fn.
               rbind (terms_fn sc_mid) (\<lambda>r.
                 case r of
                   Inl terms \<Rightarrow> ret (updated_scalars ++ update_scalar_terms sc_name terms diff_t)
                 | Inr rhs \<Rightarrow> raise TypeError))))))"

definition prediction_step ::
  "('c, 'b) Scalars \<Rightarrow> 'c FlowFieldMap \<Rightarrow> 'c FlowFieldMap \<Rightarrow> 'c FlowFieldMap
     \<Rightarrow> ('c FlowFieldMap, 'c, 'b) run" where
  "prediction_step self states states_0 additional_states =
     rbind (states_mid_of self states states_0) (\<lambda>states_mid.
     rbind (for_each (predict_scalar self states states_0 additional_states states_mid)
              (transport_scalars_names (params self)) Map.empty) (\<lambda>updated_scalars.
       case ib self of
         None \<Rightarrow> ret updated_scalars
       | Some ibm \<Rightarrow>
           rbind (emit (IbUpdateStates updated_scalars)) (\<lambda>_.
             ret (update_states ibm updated_scalars additional_states (self_bc self)))))"

text \<open>
  The same object under a configuration that gives every scalar the supported scheme;
  the theorem on unsupported schemes compares a call with the call on this object.
\<close>

definition with_cn_scheme :: "('c, 'b) Scalars \<Rightarrow> ('c, 'b) Scalars" where
  "with_cn_scheme self =
     self\<lparr> params := (params self)
             \<lparr> scalar_time_integration_scheme := (\<lambda>sc_name. TIME_SCHEME_CN_EXPLICIT_ITERATION) \<rparr> \<rparr>"

subsection \<open>Correction step\<close>

definition correct_scalar ::
  "('c, 'b) Scalars \<Rightarrow> 'c FlowFieldMap \<Rightarrow> 'c FlowFieldMap \<Rightarrow> string \<Rightarrow> 'c FlowFieldMap
     \<Rightarrow> ('c FlowFieldMap, 'c, 'b) run" where
  "correct_scalar self states additional_states sc_name scalars_acc =
     rbind (getitem states (rho_name sc_name)) (\<lambda>rho_sc.
     rbind (getitem states KEY_RHO) (\<lambda>rho.
       let sc_buf = (\<lambda>c. rho_sc c / rho c) in
       rbind (case ib self of
                None \<Rightarrow> ret sc_buf
              | Some ibm \<Rightarrow>
                  rbind (emit (IbUpdateStates [sc_name \<mapsto> sc_buf])) (\<lambda>_.
                    getitem (update_states ibm [sc_name \<mapsto> sc_buf] additional_states
                               (self_bc self)) sc_name)) (\<lambda>sc_buf.
       rbind (exchange_scalar_halos self sc_buf sc_name) (\<lambda>exchanged.
         ret (scalars_acc(sc_name \<mapsto> exchanged))))))"

text \<open>\<^verbatim>\<open>correction_step\<close>; \<^verbatim>\<open>states_0\<close> is deleted on entry.\<close>

definition correction_step ::
  "('c, 'b) Scalars \<Rightarrow> 'c FlowFieldMap \<Rightarrow> 'c FlowFieldMap \<Rightarrow> 'c FlowFieldMap
     \<Rightarrow> ('c FlowFieldMap, 'c, 'b) run" where
  "correction_step self states states_0 additional_states =
     for_each (correct_scalar self states additional_states)
       (transport_scalars_names (params self)) Map.empty"

subsection \<open>Collaborators after the spec, and a test configuration\<close>

text \<open>
  Modelled from the spec: the method
  \<^verbatim>\<open>update_helper_variable_from_additional_states\<close> of
  \<^verbatim>\<open>BoundaryConditionKeysHelper\<close> (the module
  \<^verbatim>\<open>physical_variable_keys_manager\<close> is not among the sources). The spec has the
  boundary conditions ``rebuilt every step from \<^verbatim>\<open>additional_states\<close> via the
  registry'', the refresh pull ``only the subset of boundary entries whose variable name
  is in the configured list'', and the registry ``replaced wholesale''. So every variable
  of the registry keeps its place, and its condition is the boundary entry that the
  additional states carry for it (\<open>entry\<close> reads it off them), or the registered one
  when they carry none.
\<close>

definition update_bc_from_additional_states ::
  "('c FlowFieldMap \<Rightarrow> nat \<Rightarrow> string \<Rightarrow> 'b option)
     \<Rightarrow> 'c FlowFieldMap \<Rightarrow> nat \<Rightarrow> (string \<Rightarrow> 'b option) \<Rightarrow> (string \<Rightarrow> 'b option)" where
  "update_bc_from_additional_states entry additional_states width bc_old =
     (\<lambda>varname.
        case bc_old varname of
          None \<Rightarrow> None
        | Some registered \<Rightarrow>
            (case entry additional_states width varname of
               None \<Rightarrow> Some registered
             | Some rebuilt \<Rightarrow> Some rebuilt))"

text \<open>
  Modelled from the spec: the ghost-cell exchange primitive
  \<^verbatim>\<open>halo_exchange.inplace_halo_exchange\<close> (not among the sources) on a line of
  \<open>n\<close> cells under a Dirichlet condition. The spec has it return a field of the same
  shape ``with the outer \<^verbatim>\<open>haloWidth\<close> layers on each face replaced per
  \<^verbatim>\<open>boundaryConditions\<close>''; the boundary condition is the Dirichlet value.
\<close>

definition dirichlet_halo_exchange ::
  "nat \<Rightarrow> nat \<Rightarrow> nat FlowFieldVal \<Rightarrow> real \<Rightarrow> nat FlowFieldVal" where
  "dirichlet_halo_exchange n width f bc_f =
     (\<lambda>c. if c < width \<or> n - width \<le> c then bc_f else f c)"

text \<open>
  A closure with constant terms, a call-through immersed boundary (its forcing returns
  the tentative right-hand side, its state update the fields it is given) and a debug
  hook that returns the combined source of a scalar under a debug key.
\<close>

definition example_closure :: "nat scalar_closure" where
  "example_closure =
     \<lparr> convection_fn = (\<lambda>phi states helper. ((\<lambda>c. 1), (\<lambda>c. 2), (\<lambda>c. 3))),
       diffusion_fn = (\<lambda>phi states helper. ((\<lambda>c. 4), (\<lambda>c. 5), (\<lambda>c. 6))),
       source_fn = (\<lambda>phi states helper. (\<lambda>c. 7)) \<rparr>"

definition example_ib :: "(nat, real) immersed_boundary" where
  "example_ib =
     \<lparr> ib_rhs_name = (\<lambda>n. ''ib_rhs_'' @ n),
       update_forcing = (\<lambda>fields helper k.
                           case helper k of Some (Single f) \<Rightarrow> Some f | _ \<Rightarrow> None),
       update_states = (\<lambda>fields additional_states bcs. fields) \<rparr>"

definition example_dbg ::
  "string \<Rightarrow> nat FlowFieldMap \<Rightarrow> nat FlowFieldVal list option \<Rightarrow> nat FlowFieldMap" where
  "example_dbg sc_name terms diff_t =
     (case terms ''source'' of
        None \<Rightarrow> Map.empty
      | Some f \<Rightarrow> [''dbg_'' @ sc_name @ ''_source'' \<mapsto> f])"

text \<open>
  Two transported scalars \<^verbatim>\<open>T\<close> and \<^verbatim>\<open>q\<close> on a line of four cells with
  halo width one, time step \<open>1/10\<close>, Dirichlet values \<open>5\<close> and \<open>0\<close>.
\<close>

definition example_params :: "solver_mode \<Rightarrow> real SwirlLMParameters" where
  "example_params mode =
     \<lparr> transport_scalars_names = [''T'', ''q''],
       params_bc = [''u'' \<mapsto> 0, ''T'' \<mapsto> 5, ''q'' \<mapsto> 0],
       scalars = [(''T'', True), (''q'', True), (''p_ref'', False)],
       solver_mode = mode,
       scalar_time_integration_scheme = (\<lambda>sc_name. TIME_SCHEME_CN_EXPLICIT_ITERATION),
       dt = 1 / 10,
       diffusivity = (\<lambda>sc_name. 1 / 100),
       use_sgs = False,
       halo_width = 1 \<rparr>"

definition example_scalars ::
  "real SwirlLMParameters \<Rightarrow> (nat, real) immersed_boundary option
     \<Rightarrow> (string \<Rightarrow> nat FlowFieldMap \<Rightarrow> nat FlowFieldVal list option \<Rightarrow> nat FlowFieldMap) option
     \<Rightarrow> (nat, real) Scalars" where
  "example_scalars p ib_arg dbg_arg =
     init p ib_arg None dbg_arg (\<lambda>scs vel additional_states. [])
       [''theta'', ''theta_li''] [''q_t''] (\<lambda>variant sc_name. example_closure)
       (dirichlet_halo_exchange 4 1)
       (update_bc_from_additional_states (\<lambda>additional_states width varname. None))
       (\<lambda>additional_states. Map.empty)"

definition example_states :: "nat FlowFieldMap" where
  "example_states =
     [''rho'' \<mapsto> (\<lambda>c. 2), ''rho_thermal'' \<mapsto> (\<lambda>c. 2),
      ''T'' \<mapsto> (\<lambda>c. 300), ''q'' \<mapsto> (\<lambda>c. 1),
      ''rho_T'' \<mapsto> (\<lambda>c. 600), ''rho_q'' \<mapsto> (\<lambda>c. 2)]"

text \<open>
  The same configuration with registry helpers that read the additional states: the
  Dirichlet value of a variable \<open>v\<close> is the value at cell \<open>0\<close> of the field under the
  key \<open>bc_v\<close>, its source the field under the key \<open>src_v\<close>.
\<close>

definition example_entry :: "nat FlowFieldMap \<Rightarrow> nat \<Rightarrow> string \<Rightarrow> real option" where
  "example_entry additional_states width varname =
     map_option (\<lambda>f. f 0) (additional_states (''bc_'' @ varname))"

definition example_src_manager :: "nat FlowFieldMap \<Rightarrow> nat FlowFieldMap" where
  "example_src_manager additional_states = (\<lambda>varname. additional_states (''src_'' @ varname))"

definition example_scalars_fed ::
  "real SwirlLMParameters \<Rightarrow> (nat, real) immersed_boundary option
     \<Rightarrow> (string \<Rightarrow> nat FlowFieldMap \<Rightarrow> nat FlowFieldVal list option \<Rightarrow> nat FlowFieldMap) option
     \<Rightarrow> (nat, real) Scalars" where
  "example_scalars_fed p ib_arg dbg_arg =
     init p ib_arg None dbg_arg (\<lambda>scs vel additional_states. [])
       [''theta'', ''theta_li''] [''q_t''] (\<lambda>variant sc_name. example_closure)
       (dirichlet_halo_exchange 4 1)
       (update_bc_from_additional_states example_entry)
       example_src_manager"

definition example_additional_states :: "nat FlowFieldMap" where
  "example_additional_states = [''bc_T'' \<mapsto> (\<lambda>c. 7), ''src_T'' \<mapsto> (\<lambda>c. 10)]"

text \<open>
  What the two steps return on this configuration in the conservative mode: the
  right-hand side is \<open>- (1 + 2 + 3) + (4 + 5 + 6) + (0 + 7) = 16\<close> on every cell.
\<close>

definition example_updated :: "nat FlowFieldMap" where
  "example_updated =
     [''rho_T'' \<mapsto> (\<lambda>c. 3008 / 5),
      ''T'' \<mapsto> dirichlet_halo_exchange 4 1 (\<lambda>c. 1504 / 5) 5,
      ''rho_q'' \<mapsto> (\<lambda>c. 18 / 5),
      ''q'' \<mapsto> dirichlet_halo_exchange 4 1 (\<lambda>c. 9 / 5) 0]"

definition example_corrected :: "nat FlowFieldMap" where
  "example_corrected =
     [''T'' \<mapsto> dirichlet_halo_exchange 4 1 (\<lambda>c. 300) 5,
      ''q'' \<mapsto> dirichlet_halo_exchange 4 1 (\<lambda>c. 1) 0]"

section \<open>Properties\<close>

subsection \<open>Runs\<close>

lemma rbind_Inl [simp]: "rbind (Inl e, t) f = (Inl e, t)"
  by (simp add: rbind_def)

lemma rbind_Inr [simp]: "rbind (Inr x, t) f = (case f x of (r, t') \<Rightarrow> (r, t @ t'))"
  by (simp add: rbind_def)

lemma getitem_Some [simp]: "d k = Some v \<Longrightarrow> getitem d k = (Inr v, [])"
  by (simp add: getitem_def ret_def)

lemma getitem_None [simp]: "d k = None \<Longrightarrow> getitem d k = (Inl (KeyError k), [])"
  by (simp add: getitem_def raise_def)

lemmas run_defs = ret_def raise_def emit_def

lemma rbind_eq_Inr:
  "rbind m f = (Inr y, t) \<longleftrightarrow> (\<exists>x t1 t2. m = (Inr x, t1) \<and> f x = (Inr y, t2) \<and> t = t1 @ t2)"
  by (cases m; cases "fst m") (auto simp: rbind_def split: prod.splits)

lemma raise_neq [simp]: "raise e \<noteq> (Inr y, t)"
  by (simp add: raise_def)

lemma ret_eq [simp]: "ret x = (Inr y, t) \<longleftrightarrow> x = y \<and> t = []"
  by (auto simp: ret_def)

lemma emit_eq [simp]: "emit ev = (Inr x, t) \<longleftrightarrow> t = [ev]"
  by (auto simp: emit_def)

lemma getitem_eq_Inr [simp]: "getitem d k = (Inr v, t) \<longleftrightarrow> d k = Some v \<and> t = []"
  by (auto simp: getitem_def run_defs split: option.splits)

lemma case_Inl_raise_eq_Inr [simp]:
  "(case r of Inl a \<Rightarrow> raise e | Inr b \<Rightarrow> g b) = (Inr y, t) \<longleftrightarrow> (\<exists>b. r = Inr b \<and> g b = (Inr y, t))"
  by (cases r) simp_all

lemma case_Inr_raise_eq_Inr [simp]:
  "(case r of Inl a \<Rightarrow> g a | Inr b \<Rightarrow> raise e) = (Inr y, t) \<longleftrightarrow> (\<exists>a. r = Inl a \<and> g a = (Inr y, t))"
  by (cases r) simp_all

lemma fst_raise [simp]: "fst (raise e) = Inl e"
  by (simp add: raise_def)

lemma fst_ret [simp]: "fst (ret x) = Inr x"
  by (simp add: ret_def)

lemma fst_rbind_Inl: "fst m = Inl e \<Longrightarrow> fst (rbind m f) = Inl e"
  by (cases m) simp

lemma fst_rbind_Inr: "m = (Inr x, t) \<Longrightarrow> fst (rbind m f) = fst (f x)"
  by (cases "f x") simp

lemma rbind_isl:
  assumes "\<And>x. isl (fst (f x))"
  shows "isl (fst (rbind m f))"
proof (cases m)
  case (Pair r t)
  show ?thesis
  proof (cases r)
    case (Inl e)
    with Pair show ?thesis by simp
  next
    case (Inr x)
    with Pair assms [of x] show ?thesis by (cases "f x") simp
  qed
qed

lemma rbind_isl_left: "isl (fst m) \<Longrightarrow> isl (fst (rbind m f))"
  by (cases m; cases "fst m") auto

lemma ret_events [simp]: "snd (ret x) = []"
  by (simp add: ret_def)

lemma raise_events [simp]: "snd (raise e) = []"
  by (simp add: raise_def)

lemma emit_events [simp]: "snd (emit ev) = [ev]"
  by (simp add: emit_def)

lemma getitem_events [simp]: "snd (getitem d k) = []"
  by (simp add: getitem_def run_defs split: option.splits)

lemma rbind_events_iff:
  "set (snd (rbind m f)) \<subseteq> A \<longleftrightarrow>
     set (snd m) \<subseteq> A \<and> (\<forall>x. fst m = Inr x \<longrightarrow> set (snd (f x)) \<subseteq> A)"
proof (cases m)
  case (Pair r t)
  show ?thesis
  proof (cases r)
    case (Inl e)
    with Pair show ?thesis by simp
  next
    case (Inr x)
    with Pair show ?thesis by (cases "f x") auto
  qed
qed

subsection \<open>Iteration over the scalars\<close>


lemma for_each_dom_mono:
  assumes step: "\<And>x s s' t. x \<in> set xs \<Longrightarrow> body x s = (Inr s', t) \<Longrightarrow> dom s \<union> {x} \<subseteq> dom s'"
  shows "for_each body xs s = (Inr s', t) \<Longrightarrow> dom s \<union> set xs \<subseteq> dom s'"
  using step
proof (induction xs arbitrary: s t)
  case Nil
  then show ?case by simp
next
  case (Cons x xs)
  from Cons.prems(1) obtain s1 t1 t2 where
    b: "body x s = (Inr s1, t1)" and r: "for_each body xs s1 = (Inr s', t2)"
    by (auto simp: rbind_eq_Inr)
  have "dom s \<union> {x} \<subseteq> dom s1" using Cons.prems(2) [OF _ b] by simp
  moreover have "dom s1 \<union> set xs \<subseteq> dom s'"
    by (rule Cons.IH [OF r]) (rule Cons.prems(2), simp_all)
  ultimately show ?case by auto
qed

lemma for_each_trace:
  assumes step: "\<And>x s s' t. x \<in> set xs \<Longrightarrow> body x s = (Inr s', t) \<Longrightarrow> g t = h x"
    and g_app: "\<And>a b. g (a @ b) = g a @ g b" and g_nil: "g [] = []"
  shows "for_each body xs s = (Inr s', t) \<Longrightarrow> g t = concat (map h xs)"
  using step
proof (induction xs arbitrary: s t)
  case Nil
  then show ?case by (simp add: g_nil)
next
  case (Cons x xs)
  from Cons.prems(1) obtain s1 t1 t2 where
    b: "body x s = (Inr s1, t1)" and r: "for_each body xs s1 = (Inr s', t2)" and t: "t = t1 @ t2"
    by (auto simp: rbind_eq_Inr)
  have "g t1 = h x" using Cons.prems(2) [OF _ b] by simp
  moreover have "g t2 = concat (map h xs)" using Cons.IH [OF r] Cons.prems(2) by simp
  ultimately show ?case using t by (simp add: g_app)
qed

lemma for_each_events:
  assumes "\<And>x s. set (snd (body x s)) \<subseteq> A"
  shows "set (snd (for_each body xs s)) \<subseteq> A"
  by (induction xs arbitrary: s) (simp_all add: rbind_events_iff assms)

lemma for_each_isl:
  assumes "x \<in> set xs" and "\<And>s. isl (fst (body x s))"
  shows "isl (fst (for_each body xs s))"
  using assms(1)
proof (induction xs arbitrary: s)
  case Nil
  then show ?case by simp
next
  case (Cons y ys)
  show ?case
  proof (cases "body y s")
    case (Pair r t)
    show ?thesis
    proof (cases r)
      case (Inl e)
      with Pair show ?thesis by simp
    next
      case (Inr s1)
      show ?thesis
      proof (cases "y = x")
        case True
        with assms(2) [of s] Pair Inr show ?thesis by simp
      next
        case False
        with Cons.prems have "x \<in> set ys" by simp
        from Cons.IH [OF this, of s1] Pair Inr show ?thesis
          by (cases "for_each body ys s1") simp
      qed
    qed
  qed
qed

lemma for_each_first_failure:
  assumes same: "\<And>y s. \<not> P y \<Longrightarrow> body y s = body' y s"
    and fails: "\<And>y s s' t. P y \<Longrightarrow> body' y s = (Inr s', t) \<Longrightarrow> fst (body y s) = Inl (E y)"
  shows "find P xs = Some x \<Longrightarrow> for_each body' xs s = (Inr s', t') \<Longrightarrow>
           fst (for_each body xs s) = Inl (E x)"
proof (induction xs arbitrary: s t')
  case Nil
  then show ?case by simp
next
  case (Cons y ys)
  from Cons.prems(2) obtain s1 t1 t2 where
    b: "body' y s = (Inr s1, t1)" and r: "for_each body' ys s1 = (Inr s', t2)"
    by (auto simp: rbind_eq_Inr)
  show ?case
  proof (cases "P y")
    case True
    with Cons.prems(1) have "x = y" by simp
    with fails [OF True b] show ?thesis by (simp add: fst_rbind_Inl)
  next
    case False
    with Cons.prems(1) have f: "find P ys = Some x" by simp
    from same [OF False, of s] b have "body y s = (Inr s1, t1)" by simp
    then have "fst (for_each body (y # ys) s) = fst (for_each body ys s1)"
      by (cases "for_each body ys s1") simp
    with Cons.IH [OF f r] show ?thesis by simp
  qed
qed



subsection \<open>Traces and names\<close>

lemma ib_state_calls_append [simp]: "ib_state_calls (a @ b) = ib_state_calls a @ ib_state_calls b"
  by (induction a rule: ib_state_calls.induct) simp_all

lemma halo_exchange_calls_append [simp]:
  "halo_exchange_calls (a @ b) = halo_exchange_calls a @ halo_exchange_calls b"
  by (induction a rule: halo_exchange_calls.induct) simp_all

lemma no_ib_state_calls: "set t \<subseteq> - range IbUpdateStates \<Longrightarrow> ib_state_calls t = []"
  by (induction t rule: ib_state_calls.induct) auto

lemma rho_name_neq [simp]: "rho_name s \<noteq> s" "s \<noteq> rho_name s"
  by (auto simp: rho_name_def)

lemma rho_name_inj [simp]: "rho_name a = rho_name b \<longleftrightarrow> a = b"
  by (simp add: rho_name_def)

lemma rho_name_neq_KEY_RHO [simp]: "rho_name s \<noteq> KEY_RHO" "KEY_RHO \<noteq> rho_name s"
  by (auto simp: rho_name_def KEY_RHO_def)

subsection \<open>The test configuration\<close>

lemma example_scalars_sel [simp]:
  "params (example_scalars p ib_arg dbg_arg) = p"
  "self_bc (example_scalars p ib_arg dbg_arg) = init_bc p"
  "self_source (example_scalars p ib_arg dbg_arg) = init_source p"
  "scalar_model (example_scalars p ib_arg dbg_arg)
     = (\<lambda>n. if n \<in> set (transport_scalars_names p) then Some example_closure else None)"
  "ib (example_scalars p ib_arg dbg_arg) = ib_arg"
  "dbg (example_scalars p ib_arg dbg_arg) = dbg_arg"
  "sgs_model (example_scalars p ib_arg dbg_arg)
     = (if use_sgs p then Some (\<lambda>scs vel additional_states. []) else None)"
  "inplace_halo_exchange (example_scalars p ib_arg dbg_arg) = dirichlet_halo_exchange 4 1"
  "bc_manager (example_scalars p ib_arg dbg_arg)
     = update_bc_from_additional_states (\<lambda>additional_states width varname. None)"
  "src_manager (example_scalars p ib_arg dbg_arg) = (\<lambda>additional_states. Map.empty)"
  by (simp_all add: example_scalars_def init_def init_scalar_model_def split: option.splits)

lemma example_params_sel [simp]:
  "transport_scalars_names (example_params mode) = [''T'', ''q'']"
  "params_bc (example_params mode) = [''u'' \<mapsto> 0, ''T'' \<mapsto> 5, ''q'' \<mapsto> 0]"
  "scalars (example_params mode) = [(''T'', True), (''q'', True), (''p_ref'', False)]"
  "solver_mode (example_params mode) = mode"
  "scalar_time_integration_scheme (example_params mode) = (\<lambda>sc_name. TIME_SCHEME_CN_EXPLICIT_ITERATION)"
  "dt (example_params mode) = 1 / 10"
  "diffusivity (example_params mode) = (\<lambda>sc_name. 1 / 100)"
  "use_sgs (example_params mode) = False"
  "halo_width (example_params mode) = 1"
  by (simp_all add: example_params_def)

lemma example_closure_sel [simp]:
  "convection_fn example_closure = (\<lambda>phi states helper. ((\<lambda>c. 1), (\<lambda>c. 2), (\<lambda>c. 3)))"
  "diffusion_fn example_closure = (\<lambda>phi states helper. ((\<lambda>c. 4), (\<lambda>c. 5), (\<lambda>c. 6)))"
  "source_fn example_closure = (\<lambda>phi states helper. (\<lambda>c. 7))"
  by (simp_all add: example_closure_def)

lemma example_ib_sel [simp]:
  "ib_rhs_name example_ib = (\<lambda>n. ''ib_rhs_'' @ n)"
  "update_forcing example_ib
     = (\<lambda>fields helper k. case helper k of Some (Single f) \<Rightarrow> Some f | _ \<Rightarrow> None)"
  "update_states example_ib = (\<lambda>fields additional_states bcs. fields)"
  by (simp_all add: example_ib_def)

lemma example_dbg_terms [simp]:
  "terms ''source'' = Some f \<Longrightarrow> example_dbg sc_name terms diff_t = [''dbg_'' @ sc_name @ ''_source'' \<mapsto> f]"
  by (simp add: example_dbg_def)

lemmas example_defs = init_bc_def init_source_def example_states_def KEY_RHO_def rho_name_def

lemma example_states_KEY_RHO [simp]: "example_states KEY_RHO = Some (\<lambda>c. 2)"
  by (simp add: example_defs)

lemmas step_defs = prediction_step_def states_mid_of_def predict_scalar_def scalar_diffusivity_def
  scalar_update_def registered_source_def scalar_function_def scalar_transport_equation_def
  time_advance_cn_explicit_def exchange_scalar_halos_def exchange_halos_def
  correction_step_def correct_scalar_def ib_helper_states_def
  average_def zeros_like_def ones_like_def Let_def



lemma example_prediction_ib:
  "prediction_step (example_scalars (example_params LOW_MACH) (Some example_ib) None)
     example_states example_states Map.empty
   = (Inr example_updated,
      [IbUpdateForcing ''rho_T'', HaloExchange (\<lambda>c. 1504 / 5) 5,
       IbUpdateForcing ''rho_q'', HaloExchange (\<lambda>c. 9 / 5) 0] @ [IbUpdateStates example_updated])"
  by (simp add: step_defs example_defs run_defs example_updated_def)

lemma example_correction_ib:
  "correction_step (example_scalars (example_params LOW_MACH) (Some example_ib) None)
     example_states example_states Map.empty
   = (Inr example_corrected,
      [IbUpdateStates [''T'' \<mapsto> (\<lambda>c. 300)], HaloExchange (\<lambda>c. 300) 5,
       IbUpdateStates [''q'' \<mapsto> (\<lambda>c. 1)], HaloExchange (\<lambda>c. 1) 0])"
  by (simp add: step_defs example_defs run_defs example_corrected_def)


subsection \<open>Halo exchange and the boundary registry\<close>

lemma exchange_scalar_halos_eq_Inr:
  "exchange_scalar_halos self f name = (Inr g, t) \<longleftrightarrow>
     (\<exists>b. self_bc self name = Some b \<and> g = inplace_halo_exchange self f b \<and> t = [HaloExchange f b])"
  by (auto simp: exchange_scalar_halos_def exchange_halos_def rbind_eq_Inr run_defs)



subsection \<open>Right-hand side\<close>

text \<open>
  C8. A scalar whose registered source is \<^verbatim>\<open>None\<close> gets the field of zeros shaped
  like the density as its source: \<^verbatim>\<open>_scalar_update\<close> does not fail, and the function
  it returns works with that zero source.
\<close>

theorem absent_source_defaults_to_zero:
  assumes "self_source self scalar_name = Some None" and "states KEY_RHO = Some rho"
  shows "registered_source self scalar_name states = (Inr (\<lambda>c. 0), [])
       \<and> scalar_update self scalar_name states additional_states dbg_flag
           = (Inr (scalar_function self scalar_name states additional_states dbg_flag (\<lambda>c. 0)), [])"
  using assms by (simp add: registered_source_def scalar_update_def zeros_like_def run_defs)

theorem absent_source_defaults_to_zero_witness:
  "registered_source (example_scalars (example_params LOW_MACH) None None) ''T'' example_states
     = (Inr (\<lambda>c. 0), [])
   \<and> scalar_update (example_scalars (example_params LOW_MACH) None None) ''T'' example_states
       Map.empty False
     = (Inr (scalar_function (example_scalars (example_params LOW_MACH) None None) ''T''
               example_states Map.empty False (\<lambda>c. 0)), [])"
  using absent_source_defaults_to_zero
          [of "example_scalars (example_params LOW_MACH) None None" "''T''" example_states "\<lambda>c. 2"
              Map.empty False]
  by (simp add: example_defs)



lemma scalar_update_eq_Inr:
  "scalar_update self sc st h d = (Inr fn, t) \<longleftrightarrow>
     (\<exists>source. registered_source self sc st = (Inr source, [])
        \<and> fn = scalar_function self sc st h d source \<and> t = [])"
  by (auto simp: scalar_update_def registered_source_def rbind_eq_Inr zeros_like_def
           split: option.splits)

lemma scalar_diffusivity_events:
  "scalar_diffusivity self sc mid st as = (Inr r, t) \<Longrightarrow> t = []"
  by (auto simp: scalar_diffusivity_def rbind_eq_Inr Let_def split: option.splits)

lemma scalar_function_events:
  assumes "scalar_function self sc st h d source phi = (Inr r, t)"
  shows "ib_state_calls t = [] \<and> halo_exchange_calls t = []"
proof -
  from assms obtain model where m: "scalar_model self sc = Some model"
    by (auto simp: scalar_function_def rbind_eq_Inr)
  obtain cx cy cz where c: "convection_fn model phi st h = (cx, cy, cz)"
    by (metis prod_cases3)
  obtain dx dy dz where df: "diffusion_fn model phi st h = (dx, dy, dz)"
    by (metis prod_cases3)
  show ?thesis
    using assms m c df
    by (cases "ib self")
       (auto simp: scalar_function_def Let_def rbind_eq_Inr split: if_splits)
qed

subsection \<open>Time advance\<close>




lemma time_advance_has_key:
  "time_advance_cn_explicit self st st0 rhs sc = (Inr v, t) \<Longrightarrow> sc \<in> dom v"
  by (auto simp: time_advance_cn_explicit_def rbind_eq_Inr exchange_scalar_halos_eq_Inr Let_def
           split: if_splits)

lemma time_advance_events:
  "time_advance_cn_explicit self st st0 rhs sc = (Inr v, t) \<Longrightarrow> \<exists>f b. t = [HaloExchange f b]"
  by (auto simp: time_advance_cn_explicit_def rbind_eq_Inr exchange_scalar_halos_eq_Inr Let_def
           split: if_splits)


subsection \<open>What one scalar contributes to the prediction step\<close>

lemma states_mid_of_events:
  assumes "states_mid_of self states states_0 = (Inr states_mid, t)"
  shows "t = []"
proof -
  from assms obtain s0 where
    loop: "for_each
         (\<lambda>sc_name states_mid.
            rbind (getitem states sc_name) (\<lambda>sc.
            rbind (getitem states_0 sc_name) (\<lambda>sc_0.
              ret (states_mid(sc_name \<mapsto> average sc sc_0)))))
         (transport_scalars_names (params self)) s0 = (Inr states_mid, t)"
    by (auto simp: states_mid_of_def rbind_eq_Inr)
  have "(\<lambda>t. t) t = concat (map (\<lambda>x. []) (transport_scalars_names (params self)))"
    by (rule for_each_trace [OF _ _ _ loop]) (auto simp: rbind_eq_Inr)
  then show ?thesis by simp
qed

lemma predict_scalar_eq_Inr:
  assumes "predict_scalar self st st0 as mid sc upd = (Inr s', t)"
  shows "\<exists>rhs vars tv extra t_pre t_post.
           scalar_time_integration_scheme (params self) sc = TIME_SCHEME_CN_EXPLICIT_ITERATION
         \<and> time_advance_cn_explicit self st st0 rhs sc = (Inr vars, tv)
         \<and> s' = (upd ++ vars) ++ extra
         \<and> (dbg self = None \<longrightarrow> extra = Map.empty)
         \<and> t = t_pre @ tv @ t_post
         \<and> ib_state_calls t_pre = [] \<and> halo_exchange_calls t_pre = []
         \<and> ib_state_calls t_post = [] \<and> halo_exchange_calls t_post = []"
proof -
  from assms obtain sc_mid diffusivity diff_t t1 fn t2 upd1 t3 t4 where
    d: "scalar_diffusivity self sc sc_mid st as = (Inr (diffusivity, diff_t), t1)"
    and u: "scalar_update self sc mid
              ([''diffusivity'' \<mapsto> diffusivity] ++ (map_option Single \<circ> as)) False = (Inr fn, t2)"
    and cn: "scalar_time_integration_scheme (params self) sc = TIME_SCHEME_CN_EXPLICIT_ITERATION"
    and adv: "rbind (fn sc_mid) (\<lambda>r.
                    case r of
                      Inl terms \<Rightarrow> raise TypeError
                    | Inr rhs \<Rightarrow>
                        rbind (time_advance_cn_explicit self st st0 rhs sc) (\<lambda>updated_vars.
                          ret (upd ++ updated_vars))) = (Inr upd1, t3)"
    and rest: "(case dbg self of
             None \<Rightarrow> ret upd1
           | Some update_scalar_terms \<Rightarrow>
               rbind (scalar_update self sc mid
                        ([''diffusivity'' \<mapsto> diffusivity] ++ (map_option Single \<circ> as)) True) (\<lambda>terms_fn.
               rbind (terms_fn sc_mid) (\<lambda>r.
                 case r of
                   Inl terms \<Rightarrow> ret (upd1 ++ update_scalar_terms sc terms diff_t)
                 | Inr rhs \<Rightarrow> raise TypeError))) = (Inr s', t4)"
    and t: "t = t1 @ t2 @ t3 @ t4"
    by (auto simp: predict_scalar_def rbind_eq_Inr Let_def split: if_splits)
  from adv obtain rhs ta vars tv where
    f: "fn sc_mid = (Inr (Inr rhs), ta)"
    and v: "time_advance_cn_explicit self st st0 rhs sc = (Inr vars, tv)"
    and upd1: "upd1 = upd ++ vars" and t3: "t3 = ta @ tv"
    by (auto simp: rbind_eq_Inr)
  from u f have ta: "ib_state_calls ta = [] \<and> halo_exchange_calls ta = []"
    by (auto simp: scalar_update_eq_Inr dest: scalar_function_events)
  from d u have t12: "t1 = [] \<and> t2 = []"
    by (auto simp: scalar_update_eq_Inr dest: scalar_diffusivity_events)
  from rest obtain extra where
    s': "s' = upd1 ++ extra" and ex: "dbg self = None \<longrightarrow> extra = Map.empty"
    and t4: "ib_state_calls t4 = [] \<and> halo_exchange_calls t4 = []"
    by (cases "dbg self")
       (auto simp: rbind_eq_Inr scalar_update_eq_Inr dest: scalar_function_events)
  show ?thesis
    using cn v s' upd1 ex t t3 ta t12 t4
    by (intro exI [of _ rhs] exI [of _ vars] exI [of _ tv] exI [of _ extra] exI [of _ ta]
          exI [of _ t4]) simp
qed



lemma predict_scalar_has_key:
  assumes "predict_scalar self st st0 as mid sc upd = (Inr s', t)"
  shows "dom upd \<union> {sc} \<subseteq> dom s'"
proof -
  from predict_scalar_eq_Inr [OF assms] obtain rhs vars tv extra where
    v: "time_advance_cn_explicit self st st0 rhs sc = (Inr vars, tv)"
    and s': "s' = (upd ++ vars) ++ extra" by blast
  have "dom s' = dom upd \<union> dom vars \<union> dom extra" unfolding s' by auto
  with time_advance_has_key [OF v] show ?thesis by auto
qed

lemma predict_scalar_trace:
  assumes "predict_scalar self st st0 as mid sc upd = (Inr s', t)"
  shows "ib_state_calls t = [] \<and> length (halo_exchange_calls t) = 1"
  using predict_scalar_eq_Inr [OF assms] by (auto dest!: time_advance_events)


lemma prediction_step_eq_Inr:
  "prediction_step self states states_0 additional_states = (Inr out, t) \<longleftrightarrow>
     (\<exists>states_mid t1 upd t2.
        states_mid_of self states states_0 = (Inr states_mid, t1)
      \<and> for_each (predict_scalar self states states_0 additional_states states_mid)
            (transport_scalars_names (params self)) Map.empty = (Inr upd, t2)
      \<and> (case ib self of
            None \<Rightarrow> out = upd \<and> t = t1 @ t2
          | Some ibm \<Rightarrow> out = update_states ibm upd additional_states (self_bc self)
                        \<and> t = t1 @ t2 @ [IbUpdateStates upd]))"
  by (auto simp: prediction_step_def rbind_eq_Inr run_defs split: option.splits)


lemma correct_scalar_events:
  assumes "ib self = Some ibm"
    and "correct_scalar self states additional_states sc_name acc = (Inr s', t)"
  shows "map dom (ib_state_calls t) = [{sc_name}] \<and> length (halo_exchange_calls t) = 1"
  using assms
  by (auto simp: correct_scalar_def rbind_eq_Inr exchange_scalar_halos_eq_Inr Let_def)

subsection \<open>Keys of the returned maps\<close>




subsection \<open>Calls to the immersed boundary\<close>

text \<open>
  C5. With an immersed boundary, a call of \<^verbatim>\<open>prediction_step\<close> that returns makes
  one call of \<^verbatim>\<open>update_states\<close>: it is the last call of the trace, after one
  ghost-cell exchange per transported scalar, its argument has a key for every
  transported scalar, and its result is what the step returns. A call of
  \<^verbatim>\<open>correction_step\<close> that returns makes one call of \<^verbatim>\<open>update_states\<close> per
  transported scalar, in the order of the list, each on the map that holds that scalar
  alone.
\<close>

theorem ib_update_states_calls:
  assumes "ib self = Some ibm"
  shows "(prediction_step self states states_0 additional_states = (Inr out, t) \<longrightarrow>
            (\<exists>updated_scalars t0.
               t = t0 @ [IbUpdateStates updated_scalars]
             \<and> ib_state_calls t0 = []
             \<and> length (halo_exchange_calls t0) = length (transport_scalars_names (params self))
             \<and> set (transport_scalars_names (params self)) \<subseteq> dom updated_scalars
             \<and> out = update_states ibm updated_scalars additional_states (self_bc self)))
       \<and> (correction_step self states' states_0' additional_states' = (Inr corrected, t') \<longrightarrow>
            map dom (ib_state_calls t')
              = map (\<lambda>sc_name. {sc_name}) (transport_scalars_names (params self)))"
proof (intro conjI impI)
  assume "prediction_step self states states_0 additional_states = (Inr out, t)"
  with assms obtain states_mid t1 upd t2 where
    mid: "states_mid_of self states states_0 = (Inr states_mid, t1)"
    and loop: "for_each (predict_scalar self states states_0 additional_states states_mid)
            (transport_scalars_names (params self)) Map.empty = (Inr upd, t2)"
    and out: "out = update_states ibm upd additional_states (self_bc self)"
    and t: "t = (t1 @ t2) @ [IbUpdateStates upd]"
    by (auto simp: prediction_step_eq_Inr)
  have t1: "t1 = []"
    using mid by (rule states_mid_of_events)
  show "\<exists>updated_scalars t0.
               t = t0 @ [IbUpdateStates updated_scalars]
             \<and> ib_state_calls t0 = []
             \<and> length (halo_exchange_calls t0) = length (transport_scalars_names (params self))
             \<and> set (transport_scalars_names (params self)) \<subseteq> dom updated_scalars
             \<and> out = update_states ibm updated_scalars additional_states (self_bc self)"
  proof (intro exI conjI)
    show "t = (t1 @ t2) @ [IbUpdateStates upd]" by (rule t)
    show "ib_state_calls (t1 @ t2) = []"
    proof -
      have "ib_state_calls t2
              = concat (map (\<lambda>x. []) (transport_scalars_names (params self)))"
        by (rule for_each_trace [OF _ _ _ loop]) (auto dest: predict_scalar_trace)
      with t1 show ?thesis by simp
    qed
    show "length (halo_exchange_calls (t1 @ t2)) = length (transport_scalars_names (params self))"
    proof -
      have "(map (\<lambda>x. ()) \<circ> halo_exchange_calls) t2
              = concat (map (\<lambda>x. [()]) (transport_scalars_names (params self)))"
        by (rule for_each_trace [OF _ _ _ loop])
           (auto dest!: predict_scalar_trace simp: length_Suc_conv)
      then have "length (halo_exchange_calls t2)
              = length (concat (map (\<lambda>x. [()]) (transport_scalars_names (params self))))"
        by (metis comp_apply length_map)
      with t1 show ?thesis by (simp add: length_concat comp_def)
    qed
    show "set (transport_scalars_names (params self)) \<subseteq> dom upd"
      using for_each_dom_mono [OF _ loop] predict_scalar_has_key by blast
    show "out = update_states ibm upd additional_states (self_bc self)" by (rule out)
  qed
next
  assume c: "correction_step self states' states_0' additional_states' = (Inr corrected, t')"
  have "(map dom \<circ> ib_state_calls) t'
          = concat (map (\<lambda>sc_name. [{sc_name}]) (transport_scalars_names (params self)))"
    using c assms unfolding correction_step_def
    by (intro for_each_trace [where body = "correct_scalar self states' additional_states'"])
       (auto dest: correct_scalar_events)
  then show "map dom (ib_state_calls t')
              = map (\<lambda>sc_name. {sc_name}) (transport_scalars_names (params self))"
    by (simp add: concat_map_singleton comp_def)
qed

theorem ib_update_states_calls_witness:
  "prediction_step (example_scalars (example_params LOW_MACH) (Some example_ib) None)
     example_states example_states Map.empty
     = (Inr example_updated,
        [IbUpdateForcing ''rho_T'', HaloExchange (\<lambda>c. 1504 / 5) 5,
         IbUpdateForcing ''rho_q'', HaloExchange (\<lambda>c. 9 / 5) 0]
        @ [IbUpdateStates example_updated])
   \<and> (\<exists>updated_scalars t0.
        [IbUpdateForcing ''rho_T'', HaloExchange (\<lambda>c. 1504 / 5) 5,
         IbUpdateForcing ''rho_q'', HaloExchange (\<lambda>c. 9 / 5) (0::real)]
        @ [IbUpdateStates example_updated] = t0 @ [IbUpdateStates updated_scalars]
      \<and> ib_state_calls t0 = []
      \<and> length (halo_exchange_calls t0) = 2
      \<and> {''T'', ''q''} \<subseteq> dom updated_scalars
      \<and> example_updated = updated_scalars)
   \<and> correction_step (example_scalars (example_params LOW_MACH) (Some example_ib) None)
       example_states example_states Map.empty
     = (Inr example_corrected,
        [IbUpdateStates [''T'' \<mapsto> (\<lambda>c. 300)], HaloExchange (\<lambda>c. 300) 5,
         IbUpdateStates [''q'' \<mapsto> (\<lambda>c. 1)], HaloExchange (\<lambda>c. 1) 0])
   \<and> map dom (ib_state_calls
                [IbUpdateStates [''T'' \<mapsto> (\<lambda>c::nat. 300::real)], HaloExchange (\<lambda>c. 300) (5::real),
                 IbUpdateStates [''q'' \<mapsto> (\<lambda>c. 1)], HaloExchange (\<lambda>c. 1) 0])
       = [{''T''}, {''q''}]"
  using ib_update_states_calls
          [of "example_scalars (example_params LOW_MACH) (Some example_ib) None" example_ib
              example_states example_states Map.empty example_updated
              "[IbUpdateForcing ''rho_T'', HaloExchange (\<lambda>c. 1504 / 5) 5,
                IbUpdateForcing ''rho_q'', HaloExchange (\<lambda>c. 9 / 5) 0]
               @ [IbUpdateStates example_updated]"
              example_states example_states Map.empty example_corrected
              "[IbUpdateStates [''T'' \<mapsto> (\<lambda>c. 300)], HaloExchange (\<lambda>c. 300) 5,
                IbUpdateStates [''q'' \<mapsto> (\<lambda>c. 1)], HaloExchange (\<lambda>c. 1) 0]"]
  by (simp add: example_prediction_ib example_correction_ib)

subsection \<open>Unsupported time-integration schemes\<close>

lemma predict_scalar_unsupported:
  assumes "scalar_time_integration_scheme (params self) sc \<noteq> TIME_SCHEME_CN_EXPLICIT_ITERATION"
  shows "isl (fst (predict_scalar self st st0 as mid sc upd))"
proof (cases "fst (predict_scalar self st st0 as mid sc upd)")
  case (Inl e)
  then show ?thesis by simp
next
  case (Inr s')
  then have "predict_scalar self st st0 as mid sc upd
               = (Inr s', snd (predict_scalar self st st0 as mid sc upd))"
    by (metis prod.collapse)
  from predict_scalar_eq_Inr [OF this] assms show ?thesis by blast
qed

lemma prediction_step_unsupported:
  assumes "sc \<in> set (transport_scalars_names (params self))"
    and "scalar_time_integration_scheme (params self) sc \<noteq> TIME_SCHEME_CN_EXPLICIT_ITERATION"
  shows "isl (fst (prediction_step self st st0 as))"
  unfolding prediction_step_def
  by (rule rbind_isl, rule rbind_isl_left, rule for_each_isl [OF assms(1)],
      rule predict_scalar_unsupported [OF assms(2)])

lemma exchange_scalar_halos_no_ib:
  "set (snd (exchange_scalar_halos self f name)) \<subseteq> - range IbUpdateStates"
  by (auto simp: exchange_scalar_halos_def exchange_halos_def rbind_events_iff)

lemma time_advance_no_ib:
  "set (snd (time_advance_cn_explicit self st st0 rhs sc)) \<subseteq> - range IbUpdateStates"
  by (simp add: time_advance_cn_explicit_def Let_def rbind_events_iff exchange_scalar_halos_no_ib)

lemma scalar_function_no_ib:
  "set (snd (scalar_function self sc st h d source phi)) \<subseteq> - range IbUpdateStates"
  by (auto simp: scalar_function_def Let_def rbind_events_iff split: prod.splits option.splits)

lemma scalar_update_no_ib:
  "set (snd (scalar_update self sc st h d)) \<subseteq> - range IbUpdateStates"
  by (simp add: scalar_update_def registered_source_def rbind_events_iff split: option.splits)

lemma scalar_update_fn_no_ib:
  "fst (scalar_update self sc st h d) = Inr fn \<Longrightarrow>
     set (snd (fn phi)) \<subseteq> - range IbUpdateStates"
proof -
  assume "fst (scalar_update self sc st h d) = Inr fn"
  then have "scalar_update self sc st h d = (Inr fn, snd (scalar_update self sc st h d))"
    by (metis prod.collapse)
  then obtain source where "fn = scalar_function self sc st h d source"
    by (auto simp: scalar_update_eq_Inr)
  then show ?thesis by (simp add: scalar_function_no_ib)
qed

lemma scalar_diffusivity_no_ib:
  "set (snd (scalar_diffusivity self sc mid st as)) \<subseteq> - range IbUpdateStates"
  by (simp add: scalar_diffusivity_def Let_def rbind_events_iff split: option.splits)

lemma predict_scalar_no_ib:
  "set (snd (predict_scalar self st st0 as mid sc upd)) \<subseteq> - range IbUpdateStates"
  by (simp add: predict_scalar_def Let_def rbind_events_iff scalar_diffusivity_no_ib
        scalar_update_no_ib scalar_update_fn_no_ib time_advance_no_ib
        split: prod.splits option.splits sum.splits)

lemma states_mid_of_events_subset: "set (snd (states_mid_of self st st0)) \<subseteq> A"
  unfolding states_mid_of_def
  by (simp add: rbind_events_iff for_each_events)

lemma states_mid_of_no_events: "snd (states_mid_of self st st0) = []"
  using states_mid_of_events_subset [of self st st0 "{}"] by simp

lemma prediction_step_failure_trace:
  assumes "isl (fst (prediction_step self st st0 as))"
  shows "ib_state_calls (snd (prediction_step self st st0 as)) = []"
proof (cases "states_mid_of self st st0")
  case (Pair r t1)
  have t1: "t1 = []" using states_mid_of_no_events [of self st st0] Pair by simp
  show ?thesis
  proof (cases r)
    case (Inl e)
    with Pair t1 show ?thesis by (simp add: prediction_step_def)
  next
    case (Inr mid)
    show ?thesis
    proof (cases "for_each (predict_scalar self st st0 as mid)
                    (transport_scalars_names (params self)) Map.empty")
      case loop: (Pair r2 t2)
      have "set t2 \<subseteq> - range IbUpdateStates"
        using for_each_events [of "predict_scalar self st st0 as mid" "- range IbUpdateStates"
                "transport_scalars_names (params self)" Map.empty]
              predict_scalar_no_ib loop by (metis snd_conv)
      then have t2: "ib_state_calls t2 = []" by (rule no_ib_state_calls)
      show ?thesis
      proof (cases r2)
        case (Inl e)
        with Pair Inr loop t1 t2 show ?thesis by (simp add: prediction_step_def)
      next
        case r2: (Inr upd)
        with Pair Inr loop assms show ?thesis
          by (cases "ib self") (simp_all add: prediction_step_def run_defs)
      qed
    qed
  qed
qed

lemma with_cn_scheme_sel [simp]:
  "self_bc (with_cn_scheme self) = self_bc self"
  "self_source (with_cn_scheme self) = self_source self"
  "scalar_model (with_cn_scheme self) = scalar_model self"
  "ib (with_cn_scheme self) = ib self"
  "dbg (with_cn_scheme self) = dbg self"
  "sgs_model (with_cn_scheme self) = sgs_model self"
  "inplace_halo_exchange (with_cn_scheme self) = inplace_halo_exchange self"
  "transport_scalars_names (params (with_cn_scheme self)) = transport_scalars_names (params self)"
  "solver_mode (params (with_cn_scheme self)) = solver_mode (params self)"
  "dt (params (with_cn_scheme self)) = dt (params self)"
  "diffusivity (params (with_cn_scheme self)) = diffusivity (params self)"
  "scalar_time_integration_scheme (params (with_cn_scheme self))
     = (\<lambda>sc_name. TIME_SCHEME_CN_EXPLICIT_ITERATION)"
  by (simp_all add: with_cn_scheme_def)

lemma states_mid_of_with_cn [simp]: "states_mid_of (with_cn_scheme self) = states_mid_of self"
  by (intro ext, unfold states_mid_of_def with_cn_scheme_sel, rule refl)

lemma scalar_diffusivity_with_cn [simp]:
  "scalar_diffusivity (with_cn_scheme self) = scalar_diffusivity self"
  by (intro ext, unfold scalar_diffusivity_def with_cn_scheme_sel, rule refl)

lemma registered_source_with_cn [simp]:
  "registered_source (with_cn_scheme self) = registered_source self"
  by (intro ext, unfold registered_source_def with_cn_scheme_sel, rule refl)

lemma scalar_function_with_cn [simp]:
  "scalar_function (with_cn_scheme self) = scalar_function self"
  by (intro ext, unfold scalar_function_def with_cn_scheme_sel, rule refl)

lemma scalar_update_with_cn [simp]: "scalar_update (with_cn_scheme self) = scalar_update self"
  by (intro ext, unfold scalar_update_def registered_source_with_cn scalar_function_with_cn,
      rule refl)

lemma exchange_scalar_halos_with_cn [simp]:
  "exchange_scalar_halos (with_cn_scheme self) = exchange_scalar_halos self"
  by (intro ext, unfold exchange_scalar_halos_def exchange_halos_def with_cn_scheme_sel, rule refl)

lemma time_advance_with_cn [simp]:
  "time_advance_cn_explicit (with_cn_scheme self) = time_advance_cn_explicit self"
  by (intro ext, unfold time_advance_cn_explicit_def exchange_scalar_halos_with_cn
        with_cn_scheme_sel, rule refl)

lemma predict_scalar_with_cn_same:
  assumes "scalar_time_integration_scheme (params self) sc = TIME_SCHEME_CN_EXPLICIT_ITERATION"
  shows "predict_scalar (with_cn_scheme self) st st0 as mid sc upd
           = predict_scalar self st st0 as mid sc upd"
  unfolding predict_scalar_def scalar_diffusivity_with_cn scalar_update_with_cn
    time_advance_with_cn with_cn_scheme_sel
  using assms by simp

lemma predict_scalar_with_cn_offender:
  assumes "scalar_time_integration_scheme (params self) sc \<noteq> TIME_SCHEME_CN_EXPLICIT_ITERATION"
    and "predict_scalar (with_cn_scheme self) st st0 as mid sc upd = (Inr s', t)"
  shows "fst (predict_scalar self st st0 as mid sc upd)
           = Inl (ValueError (scalar_time_integration_scheme (params self) sc))"
proof -
  from assms(2) obtain sc_mid diffusivity diff_t t1 fn t2 where
    m: "mid sc = Some sc_mid"
    and d: "scalar_diffusivity self sc sc_mid st as = (Inr (diffusivity, diff_t), t1)"
    and u: "scalar_update self sc mid
              ([''diffusivity'' \<mapsto> diffusivity] ++ (map_option Single \<circ> as)) False = (Inr fn, t2)"
    by (auto simp: predict_scalar_def rbind_eq_Inr Let_def split: if_splits)
  show ?thesis using assms(1) m d u by (simp add: predict_scalar_def Let_def run_defs)
qed

lemma scalar_diffusivity_events_subset:
  "set (snd (scalar_diffusivity self sc mid st as)) \<subseteq> A"
  by (simp add: scalar_diffusivity_def Let_def rbind_events_iff split: option.splits)

lemma scalar_update_events_subset:
  "set (snd (scalar_update self sc st h d)) \<subseteq> A"
  by (simp add: scalar_update_def registered_source_def rbind_events_iff split: option.splits)

lemma predict_scalar_unsupported_events:
  assumes "scalar_time_integration_scheme (params self) sc \<noteq> TIME_SCHEME_CN_EXPLICIT_ITERATION"
  shows "snd (predict_scalar self st st0 as mid sc upd) = []"
proof -
  have "set (snd (predict_scalar self st st0 as mid sc upd)) \<subseteq> A" for A
    using assms
    by (simp add: predict_scalar_def Let_def rbind_events_iff scalar_diffusivity_events_subset
          scalar_update_events_subset split: prod.splits)
  from this [of "{}"] show ?thesis by simp
qed

lemma prediction_step_first_unsupported:
  assumes "transport_scalars_names (params self) = sc # rest"
    and "scalar_time_integration_scheme (params self) sc \<noteq> TIME_SCHEME_CN_EXPLICIT_ITERATION"
  shows "snd (prediction_step self st st0 as) = []"
proof (cases "states_mid_of self st st0")
  case (Pair r t1)
  have t1: "t1 = []" using states_mid_of_no_events [of self st st0] Pair by simp
  show ?thesis
  proof (cases r)
    case (Inl e)
    with Pair t1 show ?thesis by (simp add: prediction_step_def)
  next
    case (Inr mid)
    obtain e where "predict_scalar self st st0 as mid sc Map.empty = (Inl e, [])"
      using predict_scalar_unsupported [OF assms(2), of st st0 as mid Map.empty]
            predict_scalar_unsupported_events [OF assms(2), of st st0 as mid Map.empty]
      by (cases "predict_scalar self st st0 as mid sc Map.empty";
          cases "fst (predict_scalar self st st0 as mid sc Map.empty)") auto
    with Pair Inr t1 assms(1) show ?thesis by (simp add: prediction_step_def)
  qed
qed

text \<open>
  C3. If some transported scalar has a scheme other than the Crank--Nicolson explicit
  iteration, \<^verbatim>\<open>prediction_step\<close> never returns a map: it raises. The state update of
  the immersed boundary has not run by then. Whenever the same call would return under a
  configuration with the supported scheme for every scalar (so that no missing key raises
  first), the error is the \<^verbatim>\<open>ValueError\<close> for the first scalar of the list with an
  unsupported scheme. When the scalar is the first of the list (as it is when one scheme
  is configured for all), no collaborator has been called at all. The step has no
  access to the registries of the object, and the scalars that precede the offending one
  have been advanced into a local map that the exception discards.
\<close>

theorem unsupported_scheme_is_fatal:
  assumes "sc_name \<in> set (transport_scalars_names (params self))"
    and "scalar_time_integration_scheme (params self) sc_name \<noteq> TIME_SCHEME_CN_EXPLICIT_ITERATION"
  shows "(\<exists>e. fst (prediction_step self states states_0 additional_states) = Inl e)
       \<and> ib_state_calls (snd (prediction_step self states states_0 additional_states)) = []
       \<and> ((\<exists>out. fst (prediction_step (with_cn_scheme self) states states_0 additional_states)
                   = Inr out) \<longrightarrow>
            (\<exists>first.
               find (\<lambda>s. scalar_time_integration_scheme (params self) s
                            \<noteq> TIME_SCHEME_CN_EXPLICIT_ITERATION)
                 (transport_scalars_names (params self)) = Some first
             \<and> fst (prediction_step self states states_0 additional_states)
                 = Inl (ValueError (scalar_time_integration_scheme (params self) first))))
       \<and> (hd (transport_scalars_names (params self)) = sc_name \<longrightarrow>
            snd (prediction_step self states states_0 additional_states) = [])"
proof (intro conjI impI)
  have isl: "isl (fst (prediction_step self states states_0 additional_states))"
    by (rule prediction_step_unsupported [OF assms])
  then show "\<exists>e. fst (prediction_step self states states_0 additional_states) = Inl e"
    by (cases "fst (prediction_step self states states_0 additional_states)") auto
  from isl show "ib_state_calls (snd (prediction_step self states states_0 additional_states)) = []"
    by (rule prediction_step_failure_trace)
next
  let ?P = "\<lambda>s. scalar_time_integration_scheme (params self) s \<noteq> TIME_SCHEME_CN_EXPLICIT_ITERATION"
  assume "\<exists>out. fst (prediction_step (with_cn_scheme self) states states_0 additional_states) = Inr out"
  then obtain out t where
    "prediction_step (with_cn_scheme self) states states_0 additional_states = (Inr out, t)"
    by (metis prod.collapse)
  then obtain states_mid t1 upd t2 where
    mid: "states_mid_of self states states_0 = (Inr states_mid, t1)"
    and loop: "for_each (predict_scalar (with_cn_scheme self) states states_0 additional_states
                 states_mid) (transport_scalars_names (params self)) Map.empty = (Inr upd, t2)"
    by (auto simp: prediction_step_eq_Inr)
  from assms obtain first where
    first: "find ?P (transport_scalars_names (params self)) = Some first"
    by (cases "find ?P (transport_scalars_names (params self))") (auto simp: find_None_iff)
  have "fst (for_each (predict_scalar self states states_0 additional_states states_mid)
               (transport_scalars_names (params self)) Map.empty)
          = Inl (ValueError (scalar_time_integration_scheme (params self) first))"
    by (rule for_each_first_failure [where P = ?P, OF _ _ first loop])
       (simp_all add: predict_scalar_with_cn_same predict_scalar_with_cn_offender)
  then have "fst (prediction_step self states states_0 additional_states)
               = Inl (ValueError (scalar_time_integration_scheme (params self) first))"
    unfolding prediction_step_def
    by (simp add: fst_rbind_Inr [OF mid] fst_rbind_Inl)
  with first show "\<exists>first. find ?P (transport_scalars_names (params self)) = Some first
             \<and> fst (prediction_step self states states_0 additional_states)
                 = Inl (ValueError (scalar_time_integration_scheme (params self) first))"
    by blast
next
  assume "hd (transport_scalars_names (params self)) = sc_name"
  with assms(1) obtain rest where "transport_scalars_names (params self) = sc_name # rest"
    by (cases "transport_scalars_names (params self)") auto
  then show "snd (prediction_step self states states_0 additional_states) = []"
    using assms(2) by (rule prediction_step_first_unsupported)
qed

theorem unsupported_scheme_is_fatal_witness:
  "fst (prediction_step
          (example_scalars
             ((example_params LOW_MACH)
                \<lparr>scalar_time_integration_scheme :=
                   (\<lambda>s. if s = ''q'' then TIME_SCHEME_OTHER 1
                        else TIME_SCHEME_CN_EXPLICIT_ITERATION)\<rparr>) None None)
          example_states example_states Map.empty)
     = Inl (ValueError (TIME_SCHEME_OTHER 1))
   \<and> ib_state_calls (snd (prediction_step
          (example_scalars
             ((example_params LOW_MACH)
                \<lparr>scalar_time_integration_scheme :=
                   (\<lambda>s. if s = ''q'' then TIME_SCHEME_OTHER 1
                        else TIME_SCHEME_CN_EXPLICIT_ITERATION)\<rparr>) None None)
          example_states example_states Map.empty)) = []
   \<and> prediction_step
         (example_scalars
            ((example_params LOW_MACH)
               \<lparr>scalar_time_integration_scheme := (\<lambda>s. TIME_SCHEME_OTHER 2)\<rparr>) None None)
         example_states example_states Map.empty
     = (Inl (ValueError (TIME_SCHEME_OTHER 2)), [])"
  using unsupported_scheme_is_fatal
          [of "''q''"
              "example_scalars
                 ((example_params LOW_MACH)
                    \<lparr>scalar_time_integration_scheme :=
                       (\<lambda>s. if s = ''q'' then TIME_SCHEME_OTHER 1
                            else TIME_SCHEME_CN_EXPLICIT_ITERATION)\<rparr>) None None"
              example_states example_states Map.empty]
        unsupported_scheme_is_fatal
          [of "''T''"
              "example_scalars
                 ((example_params LOW_MACH)
                    \<lparr>scalar_time_integration_scheme := (\<lambda>s. TIME_SCHEME_OTHER 2)\<rparr>) None None"
              example_states example_states Map.empty]
  by (simp add: step_defs example_defs run_defs example_params_def)

subsection \<open>Conservative and primitive variable\<close>




subsection \<open>The registries after \<^verbatim>\<open>prestep\<close>\<close>

lemma prestep_sel [simp]:
  "params (prestep self as) = params self"
  "bc_manager (prestep self as) = bc_manager self"
  "src_manager (prestep self as) = src_manager self"
  "self_bc (prestep self as) = bc_manager self as (halo_width (params self)) (self_bc self)"
  "self_source (prestep self as) = self_source self ++ (map_option Some \<circ> src_manager self as)"
  by (simp_all add: prestep_def)

lemma init_sel [simp]:
  "params (init p ib_arg ib_factory dbg_arg sgs pt_names hum_names mk halo bcm srcm) = p"
  "self_bc (init p ib_arg ib_factory dbg_arg sgs pt_names hum_names mk halo bcm srcm) = init_bc p"
  "self_source (init p ib_arg ib_factory dbg_arg sgs pt_names hum_names mk halo bcm srcm)
     = init_source p"
  "bc_manager (init p ib_arg ib_factory dbg_arg sgs pt_names hum_names mk halo bcm srcm) = bcm"
  "src_manager (init p ib_arg ib_factory dbg_arg sgs pt_names hum_names mk halo bcm srcm) = srcm"
  by (simp_all add: init_def)









end
